theory Spec2Isabelle
  imports Main
begin

section \<open>The Python 2.7 filter plugin (plugin.cpp)\<close>

text \<open>
  The plugin embeds a Python 2.7 interpreter in the host process and hands every batch
  of readings to a user script. This theory models the four entry points of
  \<^verbatim>\<open>plugin.cpp\<close> (\<^verbatim>\<open>plugin_init\<close>, \<^verbatim>\<open>plugin_ingest\<close>,
  \<^verbatim>\<open>plugin_shutdown\<close>, \<^verbatim>\<open>plugin_reconfigure\<close>) as functions on an explicit
  process state. Every call the C++ makes to the interpreter, the logger, the asset
  tracker and the downstream output stream is appended to a trace, in program order, so
  that "is logged", "is forwarded" and "touches the interpreter" are statements about
  the events of one call.

  Execution is sequential: one entry point runs to completion before the next starts.
\<close>

subsection \<open>Data\<close>

text \<open>
  A \<^verbatim>\<open>Reading\<close> carries an asset name, a timestamp and its datapoints. A
  \<^verbatim>\<open>ReadingSet\<close> is a heap object owning a vector of readings; \<open>ref\<close> is the identity
  of such an object (what the \<^verbatim>\<open>READINGSET *\<close> points to), \<open>handle\<close> the identity of a
  \<^verbatim>\<open>FILTER_INFO\<close>. Identities are never reused, so that "the same object" and "a newly
  constructed object" can be told apart after a \<^verbatim>\<open>delete\<close>.
\<close>

type_synonym ref = nat
type_synonym handle = nat

record reading =
  assetName :: string
  userTs :: string
  datapoints :: "(string \<times> string) list"

text \<open>An object of the interpreter (a \<^verbatim>\<open>PyObject *\<close> that is not \<^verbatim>\<open>NULL\<close>).\<close>

datatype pyobj = PyObj nat

text \<open>The items of the configuration category that the default configuration declares.\<close>

record ConfigCategory =
  getName :: string
  enable :: bool
  config :: string
  script :: string

record Python27Filter =
  m_config :: ConfigCategory
  m_enabled :: bool
  m_pythonScript :: string
  m_filtersPath :: string
  m_pModule :: "pyobj option"
  m_pFunc :: "pyobj option"

record FILTER_INFO =
  handle :: Python27Filter
  configCatName :: string

datatype event =
    Py_SetProgramName string
  | Py_Initialize
  | PyEval_InitThreads
  | PyEval_SaveThread
  | PyGILState_Ensure
  | PyGILState_Release
  | PySys_GetObject string
  | PyString_FromString string
  | PyList_Insert string
  | Py_CLEAR
  | Py_Finalize
  | Call_setScriptName
  | Call_configure
  | Call_reconfigure string
  | Call_createReadingsList
  | Call_PyObject_CallFunction
  | Call_getFilteredReadings
  | Call_logErrorMessage
  | Filter_lock
  | Filter_unlock
  | AddAssetTrackingTuple string string string
  | Logger_error string "string list"
  | Output handle ref
  | Delete_ReadingSet ref
  | New_ReadingSet ref
  | Delete_filter handle

text \<open>
  The process: the global \<^verbatim>\<open>pythonInitialised\<close> of plugin.cpp, whether the interpreter is
  live (what \<^verbatim>\<open>Py_IsInitialized()\<close> answers), the interpreter's \<^verbatim>\<open>sys.path\<close>, the
  allocated \<^verbatim>\<open>FILTER_INFO\<close> objects, the allocated reading sets, and the trace.
\<close>

record proc =
  pythonInitialised :: bool
  py_live :: bool
  sys_path :: "string list"
  instances :: "handle \<rightharpoonup> FILTER_INFO"
  next_handle :: handle
  readingSets :: "ref \<rightharpoonup> reading list"
  next_ref :: ref
  trace :: "event list"

text \<open>
  The methods of \<^verbatim>\<open>Python27Filter\<close> that reach into the interpreter or the file system
  are not part of plugin.cpp. They are parameters of the model: \<open>configure\<close> answers
  whether the script was imported and bound and may change the filter object,
  \<open>createReadingsList\<close> answers the native list or nothing (\<^verbatim>\<open>NULL\<close>),
  \<open>PyObject_CallFunction\<close> answers the script's result or nothing (the script raised),
  \<open>getFilteredReadings\<close> answers the new vector of readings or nothing. They are total
  functions: a script that never returns is outside the model.
\<close>

record env =
  getDataDir :: string
  configure :: "Python27Filter \<Rightarrow> bool \<times> Python27Filter"
  reconfigure :: "Python27Filter \<Rightarrow> string \<Rightarrow> Python27Filter"
  createReadingsList :: "reading list \<Rightarrow> pyobj option"
  PyObject_CallFunction :: "pyobj option \<Rightarrow> pyobj \<Rightarrow> pyobj option"
  getFilteredReadings :: "pyobj \<Rightarrow> reading list option"

definition FILTER_NAME :: string where
  "FILTER_NAME = ''python27''"

definition PYTHON_FILTERS_PATH :: string where
  "PYTHON_FILTERS_PATH = ''/scripts''"

definition emit :: "event \<Rightarrow> proc \<Rightarrow> proc" where
  "emit e s = s\<lparr>trace := trace s @ [e]\<rparr>"

definition emits :: "event list \<Rightarrow> proc \<Rightarrow> proc" where
  "emits es s = s\<lparr>trace := trace s @ es\<rparr>"

text \<open>The events of one call: what the trace gained between two states.\<close>

definition during :: "proc \<Rightarrow> proc \<Rightarrow> event list" where
  "during s s' = drop (length (trace s)) (trace s')"

subsection \<open>Methods of the filter object used by plugin.cpp\<close>

text \<open>
  Modelled from the spec: the constructor of \<^verbatim>\<open>Python27Filter\<close> (python27.h is not
  among the sources). The filter starts with the \<open>enable\<close> item of its configuration,
  no script name and nothing bound.
\<close>

definition new_Python27Filter :: "ConfigCategory \<Rightarrow> Python27Filter" where
  "new_Python27Filter cfg =
     \<lparr>m_config = cfg, m_enabled = enable cfg, m_pythonScript = [],
      m_filtersPath = [], m_pModule = None, m_pFunc = None\<rparr>"

text \<open>
  Modelled from the spec: \<^verbatim>\<open>setFiltersPath\<close> (python27.h is not among the sources). The
  scripts directory is the data directory followed by the fixed relative path.
\<close>

definition setFiltersPath :: "string \<Rightarrow> Python27Filter \<Rightarrow> Python27Filter" where
  "setFiltersPath dataDir f = f\<lparr>m_filtersPath := dataDir @ PYTHON_FILTERS_PATH\<rparr>"

text \<open>
  Modelled from the spec: \<^verbatim>\<open>setScriptName\<close> (python27.h is not among the sources). It
  takes the bare script name from the configuration and fails, returning false, when
  the name is empty: no script is configured.
\<close>

definition setScriptName :: "Python27Filter \<Rightarrow> bool \<times> Python27Filter" where
  "setScriptName f =
     (let f' = f\<lparr>m_pythonScript := script (m_config f)\<rparr>
      in (m_pythonScript f' \<noteq> [], f'))"

text \<open>
  Modelled from the spec: \<^verbatim>\<open>disableFilter\<close> (python27.h is not among the sources).
  It forces the filter into the Disabled state by clearing the enabled flag.
\<close>

definition disableFilter :: "Python27Filter \<Rightarrow> Python27Filter" where
  "disableFilter f = f\<lparr>m_enabled := False\<rparr>"

text \<open>
  Modelled from the spec: \<^verbatim>\<open>isEnabled\<close> (python27.h is not among the sources). It
  reads the enabled flag.
\<close>

definition isEnabled :: "Python27Filter \<Rightarrow> bool" where
  "isEnabled f = m_enabled f"

subsection \<open>plugin\_init\<close>

text \<open>
  The interpreter is initialised only when it is not live, and only then is the global
  flag set. A filter with no script is disabled and its handle returned; a filter whose
  \<open>configure\<close> fails clears the flag and returns \<^verbatim>\<open>NULL\<close> (here \<open>None\<close>) without
  freeing the objects it allocated.

  \<open>ensure_python\<close> is the block guarded by \<^verbatim>\<open>!Py_IsInitialized()\<close>.
\<close>

definition ensure_python :: "proc \<Rightarrow> proc" where
  "ensure_python s =
     (if \<not> py_live s
      then (emits [Py_Initialize, PyEval_InitThreads, PyEval_SaveThread] s)
             \<lparr>py_live := True, pythonInitialised := True\<rparr>
      else s)"

definition plugin_init :: "env \<Rightarrow> ConfigCategory \<Rightarrow> proc \<Rightarrow> handle option \<times> proc" where
  "plugin_init ev cfg s0 =
     (let h = next_handle s0;
          pyFilter = new_Python27Filter cfg;
          catName = getName cfg;
          s1 = emit (Py_SetProgramName (getName cfg)) (s0\<lparr>next_handle := Suc h\<rparr>);
          s2 = ensure_python s1;
          pyFilter = setFiltersPath (getDataDir ev) pyFilter;
          s3 = emits [PyGILState_Ensure, PySys_GetObject ''path'',
                      PyString_FromString (m_filtersPath pyFilter),
                      PyList_Insert (m_filtersPath pyFilter), Py_CLEAR]
                 (s2\<lparr>sys_path := m_filtersPath pyFilter # sys_path s2\<rparr>);
          (named, pyFilter) = setScriptName pyFilter;
          s4 = emit Call_setScriptName s3
      in if \<not> named
         then (let pyFilter = disableFilter pyFilter;
                   s5 = emit PyGILState_Release s4
               in (Some h,
                   s5\<lparr>instances := (instances s5)
                        (h \<mapsto> \<lparr>handle = pyFilter, configCatName = catName\<rparr>)\<rparr>))
         else (let (ok, pyFilter) = configure ev pyFilter;
                   s5 = emit Call_configure s4;
                   s6 = s5\<lparr>instances := (instances s5)
                          (h \<mapsto> \<lparr>handle = pyFilter, configCatName = catName\<rparr>)\<rparr>
               in if \<not> ok
                  then (let s7 = (if pythonInitialised s6
                                  then s6\<lparr>pythonInitialised := False\<rparr> else s6)
                        in (None, emit PyGILState_Release s7))
                  else (Some h, emit PyGILState_Release s6)))"

subsection \<open>plugin\_ingest\<close>

text \<open>The loop that records one asset tracking tuple for each reading of a vector.\<close>

fun track_all :: "string \<Rightarrow> reading list \<Rightarrow> proc \<Rightarrow> proc" where
  "track_all cat [] s = s"
| "track_all cat (r # rs) s =
     track_all cat rs (emit (AddAssetTrackingTuple cat (assetName r) ''Filter'') s)"

definition create_error_fmt :: string where
  "create_error_fmt =
     ''Filter '%s' (%s), script '%s', create filter data error, action: %s''"

definition filter_error_fmt :: string where
  "filter_error_fmt = ''Filter '%s' (%s), script '%s', filter error, action: %s''"

definition error_args :: "Python27Filter \<Rightarrow> string list" where
  "error_args f =
     [FILTER_NAME, getName (m_config f), m_pythonScript f, ''pass unfiltered data onwards'']"

text \<open>
  The result is \<open>None\<close> where the C++ has no defined behaviour: the handle is not an
  allocated \<^verbatim>\<open>FILTER_INFO\<close>, or an enabled filter reads a reading set that is not
  allocated. A disabled filter forwards the pointer without reading through it.

  The enabled flag is read twice: once between \<^verbatim>\<open>lock\<close> and \<^verbatim>\<open>unlock\<close>, into a
  variable that is not used afterwards, and once for the test. In a sequential run the
  two reads agree, so the model reads it once.
\<close>

definition plugin_ingest :: "env \<Rightarrow> handle \<Rightarrow> ref \<Rightarrow> proc \<Rightarrow> proc option" where
  "plugin_ingest ev h readingSet s0 =
     (case instances s0 h of
        None \<Rightarrow> None
      | Some info \<Rightarrow>
          (let filter = handle info;
               s1 = emits [Filter_lock, Filter_unlock] s0
           in if \<not> isEnabled filter
              then Some (emit (Output h readingSet) s1)
              else
                (case readingSets s1 readingSet of
                   None \<Rightarrow> None
                 | Some readings \<Rightarrow>
                     (let s2 = track_all (configCatName info) readings s1;
                          s3 = emits [PyGILState_Ensure, Call_createReadingsList] s2
                      in case createReadingsList ev readings of
                           None \<Rightarrow>
                             Some (emits [Logger_error create_error_fmt (error_args filter),
                                          Output h readingSet, PyGILState_Release] s3)
                         | Some readingsList \<Rightarrow>
                             (let pReturn = PyObject_CallFunction ev (m_pFunc filter) readingsList;
                                  s4 = emits [Call_PyObject_CallFunction, Py_CLEAR] s3
                              in case pReturn of
                                   None \<Rightarrow>
                                     Some (emits [Logger_error filter_error_fmt (error_args filter),
                                                  Call_logErrorMessage, PyGILState_Release,
                                                  Output h readingSet] s4)
                                 | Some ret \<Rightarrow>
                                     (let s5 = emit Call_getFilteredReadings s4
                                      in case getFilteredReadings ev ret of
                                           Some newReadings \<Rightarrow>
                                             (let s6 = emit (Delete_ReadingSet readingSet)
                                                         (s5\<lparr>readingSets :=
                                                               (readingSets s5)(readingSet := None)\<rparr>);
                                                  finalData = next_ref s6;
                                                  s7 = emit (New_ReadingSet finalData)
                                                         (s6\<lparr>readingSets :=
                                                               (readingSets s6)(finalData \<mapsto> newReadings),
                                                             next_ref := Suc finalData\<rparr>);
                                                  s8 = track_all (configCatName info) newReadings s7
                                              in Some (emits [Py_CLEAR, PyGILState_Release,
                                                              Output h finalData] s8))
                                         | None \<Rightarrow>
                                             Some (emits [Py_CLEAR, PyGILState_Release,
                                                          Output h readingSet] s5)))))))"

subsection \<open>plugin\_shutdown and plugin\_reconfigure\<close>

text \<open>
  Shutdown drops the two references the filter holds, finalises the interpreter when
  the global flag is set (clearing the flag), and frees the filter and its
  \<^verbatim>\<open>FILTER_INFO\<close>. The lock taken at the start is not released.
\<close>

definition plugin_shutdown :: "handle \<Rightarrow> proc \<Rightarrow> proc option" where
  "plugin_shutdown h s0 =
     (case instances s0 h of
        None \<Rightarrow> None
      | Some info \<Rightarrow>
          (let s1 = emits [PyGILState_Ensure, Py_CLEAR, Py_CLEAR] s0;
               s2 = (if pythonInitialised s1
                     then emit Py_Finalize (s1\<lparr>pythonInitialised := False, py_live := False\<rparr>)
                     else s1);
               s3 = emit (Delete_filter h) (s2\<lparr>instances := (instances s2)(h := None)\<rparr>)
           in Some s3))"

definition plugin_reconfigure :: "env \<Rightarrow> handle \<Rightarrow> string \<Rightarrow> proc \<Rightarrow> proc option" where
  "plugin_reconfigure ev h newConfig s0 =
     (case instances s0 h of
        None \<Rightarrow> None
      | Some info \<Rightarrow>
          (let s1 = emits [PyGILState_Ensure, Call_reconfigure newConfig] s0;
               info' = info\<lparr>handle := reconfigure ev (handle info) newConfig\<rparr>;
               s2 = emit PyGILState_Release (s1\<lparr>instances := (instances s1)(h \<mapsto> info')\<rparr>)
           in Some s2))"

subsection \<open>The host: sequences of calls\<close>

text \<open>
  The host allocates reading sets and calls the entry points one after the other. Each
  call comes with the behaviour of the script and the marshaller at that moment, so a
  script may answer differently from one call to the next.
\<close>

datatype op =
    Init ConfigCategory
  | Ingest handle ref
  | Shutdown handle
  | Reconfigure handle string
  | New_batch "reading list"

fun step :: "env \<Rightarrow> op \<Rightarrow> proc \<Rightarrow> proc option" where
  "step ev (Init cfg) s = Some (snd (plugin_init ev cfg s))"
| "step ev (Ingest h r) s = plugin_ingest ev h r s"
| "step ev (Shutdown h) s = plugin_shutdown h s"
| "step ev (Reconfigure h c) s = plugin_reconfigure ev h c s"
| "step ev (New_batch rs) s =
     Some (s\<lparr>readingSets := (readingSets s)(next_ref s \<mapsto> rs), next_ref := Suc (next_ref s)\<rparr>)"

fun run :: "(env \<times> op) list \<Rightarrow> proc \<Rightarrow> proc option" where
  "run [] s = Some s"
| "run ((ev, c) # cs) s = (case step ev c s of None \<Rightarrow> None | Some s' \<Rightarrow> run cs s')"

subsection \<open>Observations on a trace\<close>

fun outputs :: "event list \<Rightarrow> ref list" where
  "outputs [] = []"
| "outputs (Output h r # es) = r # outputs es"
| "outputs (e # es) = outputs es"

fun tracked :: "event list \<Rightarrow> (string \<times> string \<times> string) list" where
  "tracked [] = []"
| "tracked (AddAssetTrackingTuple c a k # es) = (c, a, k) # tracked es"
| "tracked (e # es) = tracked es"

fun errors_logged :: "event list \<Rightarrow> (string \<times> string list) list" where
  "errors_logged [] = []"
| "errors_logged (Logger_error f as # es) = (f, as) # errors_logged es"
| "errors_logged (e # es) = errors_logged es"

fun deleted :: "event list \<Rightarrow> ref list" where
  "deleted [] = []"
| "deleted (Delete_ReadingSet r # es) = r # deleted es"
| "deleted (e # es) = deleted es"

text \<open>
  The events that create, inspect or destroy interpreter state: the calls of the
  Python C API and the methods of the filter that work on interpreter objects.
\<close>

fun touches_interpreter :: "event \<Rightarrow> bool" where
  "touches_interpreter Filter_lock = False"
| "touches_interpreter Filter_unlock = False"
| "touches_interpreter (AddAssetTrackingTuple c a k) = False"
| "touches_interpreter (Logger_error f as) = False"
| "touches_interpreter (Output h r) = False"
| "touches_interpreter (Delete_ReadingSet r) = False"
| "touches_interpreter (New_ReadingSet r) = False"
| "touches_interpreter (Delete_filter h) = False"
| "touches_interpreter e = True"

text \<open>The tracking events of one pass of the loop over a vector of readings.\<close>

definition track_events :: "string \<Rightarrow> reading list \<Rightarrow> event list" where
  "track_events cat rs = map (\<lambda>r. AddAssetTrackingTuple cat (assetName r) ''Filter'') rs"

definition tuples_of :: "string \<Rightarrow> reading list \<Rightarrow> (string \<times> string \<times> string) list" where
  "tuples_of cat rs = map (\<lambda>r. (cat, assetName r, ''Filter'')) rs"

text \<open>
  The replacement vector of a batch: what marshalling in, calling the script and
  marshalling back yield when all three succeed, and nothing when one of them fails.
\<close>

definition filtered :: "env \<Rightarrow> Python27Filter \<Rightarrow> reading list \<Rightarrow> reading list option" where
  "filtered ev f b =
     (case createReadingsList ev b of
        None \<Rightarrow> None
      | Some l \<Rightarrow>
          (case PyObject_CallFunction ev (m_pFunc f) l of
             None \<Rightarrow> None
           | Some ret \<Rightarrow> getFilteredReadings ev ret))"

text \<open>The filter object on which \<^verbatim>\<open>plugin_init\<close> calls \<open>configure\<close>.\<close>

definition configure_arg :: "env \<Rightarrow> ConfigCategory \<Rightarrow> Python27Filter" where
  "configure_arg ev cfg =
     snd (setScriptName (setFiltersPath (getDataDir ev) (new_Python27Filter cfg)))"

subsection \<open>An example process\<close>

text \<open>
  A fresh process (the global flag starts false, no interpreter), a reading of asset
  \<open>sensorA\<close>, a script that doubles the temperature, and the ways the script and the
  marshaller can fail.
\<close>

definition proc0 :: proc where
  "proc0 = \<lparr>pythonInitialised = False, py_live = False, sys_path = [],
            instances = Map.empty, next_handle = 0,
            readingSets = Map.empty, next_ref = 0, trace = []\<rparr>"

definition sensorA :: reading where
  "sensorA = \<lparr>assetName = ''sensorA'', userTs = ''2024-01-01T00:00:00.000Z'',
              datapoints = [(''temperature'', ''21.5'')]\<rparr>"

definition sensorA_doubled :: reading where
  "sensorA_doubled = \<lparr>assetName = ''sensorA'', userTs = ''2024-01-01T00:00:00.000Z'',
                      datapoints = [(''temperature'', ''43.0'')]\<rparr>"

definition bind_script :: "Python27Filter \<Rightarrow> bool \<times> Python27Filter" where
  "bind_script f = (True, f\<lparr>m_pModule := Some (PyObj 10), m_pFunc := Some (PyObj 11)\<rparr>)"

definition env_ok :: env where
  "env_ok = \<lparr>getDataDir = ''/usr/local/fledge/data'',
             configure = bind_script,
             reconfigure = (\<lambda>f c. f),
             createReadingsList = (\<lambda>rs. Some (PyObj 1)),
             PyObject_CallFunction = (\<lambda>f x. Some (PyObj 2)),
             getFilteredReadings = (\<lambda>r. Some [sensorA_doubled])\<rparr>"

definition env_no_bind :: env where
  "env_no_bind = env_ok\<lparr>configure := (\<lambda>f. (False, f))\<rparr>"

definition env_marshal_in_fails :: env where
  "env_marshal_in_fails = env_ok\<lparr>createReadingsList := (\<lambda>rs. None)\<rparr>"

definition env_script_raises :: env where
  "env_script_raises = env_ok\<lparr>PyObject_CallFunction := (\<lambda>f x. None)\<rparr>"

definition env_marshal_back_fails :: env where
  "env_marshal_back_fails = env_ok\<lparr>getFilteredReadings := (\<lambda>r. None)\<rparr>"

definition cfg_doubler :: ConfigCategory where
  "cfg_doubler = \<lparr>getName = ''doubler'', enable = True, config = ''{}'', script = ''double''\<rparr>"

definition cfg_off :: ConfigCategory where
  "cfg_off = \<lparr>getName = ''idle'', enable = False, config = ''{}'', script = ''double''\<rparr>"

definition cfg_no_script :: ConfigCategory where
  "cfg_no_script = \<lparr>getName = ''bare'', enable = True, config = ''{}'', script = []\<rparr>"

text \<open>
  The process after \<open>doubler\<close> (handle 0) and \<open>idle\<close> (handle 1) were initialised in
  this order and the host allocated a batch holding the one reading (reference 0).
\<close>

definition proc_A :: proc where
  "proc_A = snd (plugin_init env_ok cfg_doubler proc0)"

definition proc_AB :: proc where
  "proc_AB = snd (plugin_init env_ok cfg_off proc_A)"

definition proc_fed :: proc where
  "proc_fed = proc_AB\<lparr>readingSets := (readingSets proc_AB)(next_ref proc_AB \<mapsto> [sensorA]),
                      next_ref := Suc (next_ref proc_AB)\<rparr>"

definition info_doubler :: FILTER_INFO where
  "info_doubler =
     \<lparr>handle = \<lparr>m_config = cfg_doubler, m_enabled = True, m_pythonScript = ''double'',
                m_filtersPath = ''/usr/local/fledge/data/scripts'',
                m_pModule = Some (PyObj 10), m_pFunc = Some (PyObj 11)\<rparr>,
      configCatName = ''doubler''\<rparr>"

definition info_off :: FILTER_INFO where
  "info_off =
     \<lparr>handle = \<lparr>m_config = cfg_off, m_enabled = False, m_pythonScript = ''double'',
                m_filtersPath = ''/usr/local/fledge/data/scripts'',
                m_pModule = Some (PyObj 10), m_pFunc = Some (PyObj 11)\<rparr>,
      configCatName = ''idle''\<rparr>"

section \<open>Properties\<close>

subsection \<open>Traces\<close>

lemma track_all_emits: "track_all cat rs s = emits (track_events cat rs) s"
  by (induction rs arbitrary: s) (simp_all add: emit_def emits_def track_events_def)

lemma during_emits: "during s (emits es s) = es"
  by (simp add: during_def emits_def)

lemma during_emits_upd:
  "during s (emits es (s\<lparr>readingSets := m, next_ref := n\<rparr>)) = es"
  by (simp add: during_def emits_def)

lemma outputs_append: "outputs (xs @ ys) = outputs xs @ outputs ys"
  by (induction xs rule: outputs.induct) simp_all

lemma tracked_append: "tracked (xs @ ys) = tracked xs @ tracked ys"
  by (induction xs rule: tracked.induct) simp_all

lemma errors_logged_append:
  "errors_logged (xs @ ys) = errors_logged xs @ errors_logged ys"
  by (induction xs rule: errors_logged.induct) simp_all

lemma deleted_append: "deleted (xs @ ys) = deleted xs @ deleted ys"
  by (induction xs rule: deleted.induct) simp_all

lemma outputs_track: "outputs (track_events cat rs) = []"
  by (induction rs) (simp_all add: track_events_def)

lemma tracked_track: "tracked (track_events cat rs) = tuples_of cat rs"
  by (induction rs) (simp_all add: track_events_def tuples_of_def)

lemma errors_logged_track: "errors_logged (track_events cat rs) = []"
  by (induction rs) (simp_all add: track_events_def)

lemma deleted_track: "deleted (track_events cat rs) = []"
  by (induction rs) (simp_all add: track_events_def)

lemma track_events_set:
  "e \<in> set (track_events cat rs) \<Longrightarrow> \<exists>a. e = AddAssetTrackingTuple cat a ''Filter''"
  by (auto simp: track_events_def)

lemmas obs_simps =
  during_emits during_emits_upd outputs_append tracked_append errors_logged_append
  deleted_append outputs_track tracked_track errors_logged_track deleted_track

subsection \<open>The five paths of plugin\_ingest\<close>

text \<open>
  Each lemma gives the state one path of \<open>plugin_ingest\<close> ends in: the events it
  appends, in order, and what it changes in the store of reading sets.
\<close>

lemmas ingest_defs = plugin_ingest_def isEnabled_def emit_def emits_def Let_def track_all_emits

lemma ingest_disabled:
  assumes "instances s h = Some info" "\<not> m_enabled (handle info)"
  shows "plugin_ingest ev h rs s = Some (emits [Filter_lock, Filter_unlock, Output h rs] s)"
  using assms by (simp add: ingest_defs)

lemma ingest_marshal_in_failure:
  assumes "instances s h = Some info" "m_enabled (handle info)" "readingSets s rs = Some b"
    and "createReadingsList ev b = None"
  shows "plugin_ingest ev h rs s =
           Some (emits ([Filter_lock, Filter_unlock] @ track_events (configCatName info) b @
                        [PyGILState_Ensure, Call_createReadingsList,
                         Logger_error create_error_fmt (error_args (handle info)),
                         Output h rs, PyGILState_Release]) s)"
  using assms by (simp add: ingest_defs)

lemma ingest_invocation_failure:
  assumes "instances s h = Some info" "m_enabled (handle info)" "readingSets s rs = Some b"
    and "createReadingsList ev b = Some l"
    and "PyObject_CallFunction ev (m_pFunc (handle info)) l = None"
  shows "plugin_ingest ev h rs s =
           Some (emits ([Filter_lock, Filter_unlock] @ track_events (configCatName info) b @
                        [PyGILState_Ensure, Call_createReadingsList,
                         Call_PyObject_CallFunction, Py_CLEAR,
                         Logger_error filter_error_fmt (error_args (handle info)),
                         Call_logErrorMessage, PyGILState_Release, Output h rs]) s)"
  using assms by (simp add: ingest_defs)

lemma ingest_marshal_back_failure:
  assumes "instances s h = Some info" "m_enabled (handle info)" "readingSets s rs = Some b"
    and "createReadingsList ev b = Some l"
    and "PyObject_CallFunction ev (m_pFunc (handle info)) l = Some ret"
    and "getFilteredReadings ev ret = None"
  shows "plugin_ingest ev h rs s =
           Some (emits ([Filter_lock, Filter_unlock] @ track_events (configCatName info) b @
                        [PyGILState_Ensure, Call_createReadingsList,
                         Call_PyObject_CallFunction, Py_CLEAR, Call_getFilteredReadings,
                         Py_CLEAR, PyGILState_Release, Output h rs]) s)"
  using assms by (simp add: ingest_defs)

lemma ingest_success:
  assumes "instances s h = Some info" "m_enabled (handle info)" "readingSets s rs = Some b"
    and "createReadingsList ev b = Some l"
    and "PyObject_CallFunction ev (m_pFunc (handle info)) l = Some ret"
    and "getFilteredReadings ev ret = Some nr"
  shows "plugin_ingest ev h rs s =
           Some (emits ([Filter_lock, Filter_unlock] @ track_events (configCatName info) b @
                        [PyGILState_Ensure, Call_createReadingsList,
                         Call_PyObject_CallFunction, Py_CLEAR, Call_getFilteredReadings,
                         Delete_ReadingSet rs, New_ReadingSet (next_ref s)] @
                        track_events (configCatName info) nr @
                        [Py_CLEAR, PyGILState_Release, Output h (next_ref s)])
                   (s\<lparr>readingSets := (readingSets s)(rs := None, next_ref s \<mapsto> nr),
                      next_ref := Suc (next_ref s)\<rparr>))"
  using assms by (simp add: ingest_defs)

lemma emits_readingSets: "readingSets (emits es s) = readingSets s"
  by (simp add: emits_def)

lemma filtered_None_cases:
  assumes "filtered ev f b = None"
  shows "createReadingsList ev b = None
       \<or> (\<exists>l. createReadingsList ev b = Some l \<and> PyObject_CallFunction ev (m_pFunc f) l = None)
       \<or> (\<exists>l ret. createReadingsList ev b = Some l
             \<and> PyObject_CallFunction ev (m_pFunc f) l = Some ret
             \<and> getFilteredReadings ev ret = None)"
  using assms by (auto simp: filtered_def split: option.splits)

lemma filtered_Some_cases:
  assumes "filtered ev f b = Some nr"
  shows "\<exists>l ret. createReadingsList ev b = Some l
             \<and> PyObject_CallFunction ev (m_pFunc f) l = Some ret
             \<and> getFilteredReadings ev ret = Some nr"
  using assms by (auto simp: filtered_def split: option.splits)

subsection \<open>The example process\<close>

lemmas ex_defs =
  proc0_def sensorA_def sensorA_doubled_def bind_script_def env_ok_def env_no_bind_def
  env_marshal_in_fails_def env_script_raises_def env_marshal_back_fails_def
  cfg_doubler_def cfg_off_def cfg_no_script_def proc_A_def proc_AB_def proc_fed_def
  info_doubler_def info_off_def

lemmas init_defs =
  plugin_init_def ensure_python_def emit_def emits_def Let_def new_Python27Filter_def
  setFiltersPath_def setScriptName_def disableFilter_def PYTHON_FILTERS_PATH_def

lemma proc_fed_facts:
  "instances proc_fed 0 = Some info_doubler"
  "instances proc_fed (Suc 0) = Some info_off"
  "readingSets proc_fed 0 = Some [sensorA]"
  "next_ref proc_fed = Suc 0"
  "pythonInitialised proc_fed"
  "py_live proc_fed"
  by (simp_all add: ex_defs init_defs)

lemma info_facts:
  "m_enabled (handle info_doubler)" "\<not> m_enabled (handle info_off)"
  "m_pFunc (handle info_doubler) = Some (PyObj 11)"
  "configCatName info_doubler = ''doubler''"
  by (simp_all add: info_doubler_def info_off_def)

text \<open>The example process is what the host reaches by three calls from a fresh process.\<close>

lemma proc_fed_reached:
  "run [(env_ok, Init cfg_doubler), (env_ok, Init cfg_off), (env_ok, New_batch [sensorA])] proc0
     = Some proc_fed"
  by (simp add: proc_fed_def proc_AB_def proc_A_def)

subsection \<open>Claims about plugin\_ingest\<close>





text \<open>
  The path on which the script returns a value and marshalling it back fails
  (\<^verbatim>\<open>getFilteredReadings\<close> returns \<^verbatim>\<open>NULL\<close>): the call returns, the one batch sent to
  the output stream is the input batch itself and the store of reading sets is
  unchanged. The branch that handles this failure only selects the input batch:
  \<open>plugin_ingest\<close> writes no error record there and does not call
  \<^verbatim>\<open>logErrorMessage\<close>.
\<close>

lemma marshal_back_failure_passthrough:
  assumes "instances s h = Some info" and "m_enabled (handle info)"
    and "readingSets s rs = Some b"
    and "createReadingsList ev b = Some l"
    and "PyObject_CallFunction ev (m_pFunc (handle info)) l = Some ret"
    and "getFilteredReadings ev ret = None"
  shows "\<exists>s'. plugin_ingest ev h rs s = Some s'
            \<and> outputs (during s s') = [rs]
            \<and> readingSets s' = readingSets s
            \<and> deleted (during s s') = []
            \<and> errors_logged (during s s') = []
            \<and> Call_logErrorMessage \<notin> set (during s s')"
  by (auto simp: ingest_marshal_back_failure [OF assms] obs_simps emits_readingSets
           dest: track_events_set)




text \<open>
  C7. When the filter is disabled, the call returns and the resulting state is the
  state before with three events appended: the configuration lock taken and released,
  and the input batch handed to the output stream. So the batch sent is the very
  object received, no reading set is changed, and no event of the call touches the
  interpreter.
\<close>

theorem C7_disabled_passthrough:
  assumes "instances s h = Some info" and "\<not> m_enabled (handle info)"
  shows "\<exists>s'. plugin_ingest ev h rs s = Some s'
            \<and> s' = s\<lparr>trace := trace s @ [Filter_lock, Filter_unlock, Output h rs]\<rparr>
            \<and> outputs (during s s') = [rs]
            \<and> readingSets s' = readingSets s
            \<and> filter touches_interpreter (during s s') = []"
  by (simp add: ingest_disabled [OF assms] obs_simps emits_readingSets) (simp add: emits_def)

theorem C7_witness:
  "\<exists>s'. plugin_ingest env_ok (Suc 0) 0 proc_fed = Some s'
       \<and> outputs (during proc_fed s') = [0]
       \<and> readingSets s' 0 = Some [sensorA]
       \<and> filter touches_interpreter (during proc_fed s') = []"
  using C7_disabled_passthrough [of proc_fed "Suc 0" info_off env_ok 0]
  by (auto simp: proc_fed_facts info_facts)



text \<open>
  C3, as the code has it. A disabled filter records no asset tracking tuple. An enabled
  filter records one tuple for each reading of the input batch, in order, before it
  marshals; when a step fails, these are all the tuples of the call and the batch
  forwarded is the input batch, so each forwarded reading has one tuple of its own.
  When all steps succeed, the call records in addition one tuple for each reading of
  the replacement batch, which is the batch forwarded.
\<close>

theorem C3_tracking_per_path:
  assumes inst: "instances s h = Some info" and live: "readingSets s rs = Some b"
  shows "\<exists>s'. plugin_ingest ev h rs s = Some s'
            \<and> (\<not> m_enabled (handle info)
                 \<longrightarrow> outputs (during s s') = [rs] \<and> tracked (during s s') = [])
            \<and> (m_enabled (handle info) \<and> filtered ev (handle info) b = None
                 \<longrightarrow> outputs (during s s') = [rs] \<and> readingSets s' rs = Some b
                     \<and> tracked (during s s') = tuples_of (configCatName info) b)
            \<and> (\<forall>nr. m_enabled (handle info) \<and> filtered ev (handle info) b = Some nr
                 \<longrightarrow> outputs (during s s') = [next_ref s]
                     \<and> readingSets s' (next_ref s) = Some nr
                     \<and> tracked (during s s') =
                         tuples_of (configCatName info) b @ tuples_of (configCatName info) nr)"
proof (cases "m_enabled (handle info)")
  case False
  then show ?thesis
    by (simp add: ingest_disabled [OF inst] obs_simps)
next
  case on: True
  show ?thesis
  proof (cases "filtered ev (handle info) b")
    case None
    from filtered_None_cases [OF None] show ?thesis
    proof (elim disjE exE conjE)
      assume "createReadingsList ev b = None"
      then show ?thesis
        using on None live
        by (simp add: ingest_marshal_in_failure [OF inst on live] obs_simps emits_readingSets)
    next
      fix l
      assume "createReadingsList ev b = Some l"
        and "PyObject_CallFunction ev (m_pFunc (handle info)) l = None"
      then show ?thesis
        using on None live
        by (simp add: ingest_invocation_failure [OF inst on live] obs_simps emits_readingSets)
    next
      fix l ret
      assume "createReadingsList ev b = Some l"
        and "PyObject_CallFunction ev (m_pFunc (handle info)) l = Some ret"
        and "getFilteredReadings ev ret = None"
      then show ?thesis
        using on None live
        by (simp add: ingest_marshal_back_failure [OF inst on live] obs_simps emits_readingSets)
    qed
  next
    case (Some nr)
    from filtered_Some_cases [OF Some] obtain l ret where
      "createReadingsList ev b = Some l"
      "PyObject_CallFunction ev (m_pFunc (handle info)) l = Some ret"
      "getFilteredReadings ev ret = Some nr"
      by blast
    then show ?thesis
      using on Some
      by (simp add: ingest_success [OF inst on live] obs_simps emits_readingSets)
  qed
qed

theorem C3_witness:
  "(\<exists>s'. plugin_ingest env_ok (Suc 0) 0 proc_fed = Some s' \<and> tracked (during proc_fed s') = [])
   \<and> (\<exists>s'. plugin_ingest env_script_raises 0 0 proc_fed = Some s'
           \<and> outputs (during proc_fed s') = [0]
           \<and> readingSets s' 0 = Some [sensorA]
           \<and> tracked (during proc_fed s') = [(''doubler'', ''sensorA'', ''Filter'')])
   \<and> (\<exists>s'. plugin_ingest env_ok 0 0 proc_fed = Some s'
           \<and> outputs (during proc_fed s') = [Suc 0]
           \<and> readingSets s' (Suc 0) = Some [sensorA_doubled]
           \<and> tracked (during proc_fed s') =
               [(''doubler'', ''sensorA'', ''Filter''), (''doubler'', ''sensorA'', ''Filter'')])"
proof (intro conjI)
  show "\<exists>s'. plugin_ingest env_ok (Suc 0) 0 proc_fed = Some s' \<and> tracked (during proc_fed s') = []"
    using C3_tracking_per_path [of proc_fed "Suc 0" info_off 0 "[sensorA]" env_ok]
    by (auto simp: proc_fed_facts info_facts)
  show "\<exists>s'. plugin_ingest env_script_raises 0 0 proc_fed = Some s'
           \<and> outputs (during proc_fed s') = [0]
           \<and> readingSets s' 0 = Some [sensorA]
           \<and> tracked (during proc_fed s') = [(''doubler'', ''sensorA'', ''Filter'')]"
    using C3_tracking_per_path [of proc_fed 0 info_doubler 0 "[sensorA]" env_script_raises]
    by (auto simp: proc_fed_facts info_facts env_script_raises_def env_ok_def filtered_def
          tuples_of_def sensorA_def)
  show "\<exists>s'. plugin_ingest env_ok 0 0 proc_fed = Some s'
           \<and> outputs (during proc_fed s') = [Suc 0]
           \<and> readingSets s' (Suc 0) = Some [sensorA_doubled]
           \<and> tracked (during proc_fed s') =
               [(''doubler'', ''sensorA'', ''Filter''), (''doubler'', ''sensorA'', ''Filter'')]"
    using C3_tracking_per_path [of proc_fed 0 info_doubler 0 "[sensorA]" env_ok]
    by (auto simp: proc_fed_facts info_facts env_ok_def filtered_def
          tuples_of_def sensorA_def sensorA_doubled_def)
qed

text \<open>
  C3 as the claim states it fails on the disabled passthrough: in the example process
  the disabled filter forwards the batch holding the reading of \<open>sensorA\<close>, and the
  events of the call hold no asset tracking tuple at all.
\<close>

theorem C3_counterexample:
  "plugin_ingest env_ok (Suc 0) 0 proc_fed \<noteq> None
   \<and> outputs (during proc_fed (the (plugin_ingest env_ok (Suc 0) 0 proc_fed))) = [0]
   \<and> readingSets (the (plugin_ingest env_ok (Suc 0) 0 proc_fed)) 0 = Some [sensorA]
   \<and> tracked (during proc_fed (the (plugin_ingest env_ok (Suc 0) 0 proc_fed))) = []"
proof -
  have run: "plugin_ingest env_ok (Suc 0) 0 proc_fed =
               Some (emits [Filter_lock, Filter_unlock, Output (Suc 0) 0] proc_fed)"
    using ingest_disabled [of proc_fed "Suc 0" info_off env_ok 0]
    by (simp add: proc_fed_facts info_facts)
  show ?thesis
    unfolding run by (simp add: obs_simps emits_readingSets proc_fed_facts)
qed

subsection \<open>Claims about plugin\_init and plugin\_shutdown\<close>

lemma init_result:
  "fst (plugin_init ev cfg s) =
     (if script cfg \<noteq> [] \<and> \<not> fst (configure ev (configure_arg ev cfg))
      then None else Some (next_handle s))"
  by (simp add: init_defs configure_arg_def split: prod.splits)

lemma init_no_script:
  assumes "script cfg = []"
  shows "snd (plugin_init ev cfg s) =
           (emits [Call_setScriptName, PyGILState_Release]
              (emits [PyGILState_Ensure, PySys_GetObject ''path'',
                      PyString_FromString (getDataDir ev @ PYTHON_FILTERS_PATH),
                      PyList_Insert (getDataDir ev @ PYTHON_FILTERS_PATH), Py_CLEAR]
                 (ensure_python (emit (Py_SetProgramName (getName cfg)) s))))
           \<lparr>next_handle := Suc (next_handle s),
            sys_path := (getDataDir ev @ PYTHON_FILTERS_PATH) # sys_path s,
            instances := (instances s)
              (next_handle s \<mapsto>
                 \<lparr>handle = \<lparr>m_config = cfg, m_enabled = False, m_pythonScript = [],
                            m_filtersPath = getDataDir ev @ PYTHON_FILTERS_PATH,
                            m_pModule = None, m_pFunc = None\<rparr>,
                  configCatName = getName cfg\<rparr>)\<rparr>"
  using assms
  by (simp add: plugin_init_def ensure_python_def emit_def emits_def Let_def
        new_Python27Filter_def setFiltersPath_def setScriptName_def disableFilter_def)

lemma ensure_python_trace:
  "\<exists>es. trace (ensure_python s) = trace s @ es \<and> Py_Finalize \<notin> set es \<and> Call_configure \<notin> set es"
  by (simp add: ensure_python_def emits_def)

text \<open>
  C8. \<open>plugin_init\<close> returns \<^verbatim>\<open>NULL\<close> exactly when the configuration names a script
  and \<open>configure\<close> then fails. When the script name is empty it returns the handle of
  the \<^verbatim>\<open>FILTER_INFO\<close> it allocated, whose filter is disabled, and \<open>configure\<close> is not
  called.
\<close>

theorem C8_init_null_iff_configure_fails:
  "(fst (plugin_init ev cfg s) = None)
     = (script cfg \<noteq> [] \<and> \<not> fst (configure ev (configure_arg ev cfg)))
   \<and> (script cfg = [] \<longrightarrow>
        (\<exists>info. fst (plugin_init ev cfg s) = Some (next_handle s)
           \<and> instances (snd (plugin_init ev cfg s)) (next_handle s) = Some info
           \<and> \<not> m_enabled (handle info)
           \<and> Call_configure \<notin> set (during s (snd (plugin_init ev cfg s)))))"
proof (intro conjI impI)
  show "(fst (plugin_init ev cfg s) = None)
          = (script cfg \<noteq> [] \<and> \<not> fst (configure ev (configure_arg ev cfg)))"
    by (simp add: init_result)
next
  assume empty: "script cfg = []"
  obtain es where es: "trace (ensure_python (emit (Py_SetProgramName (getName cfg)) s))
                         = trace (emit (Py_SetProgramName (getName cfg)) s) @ es"
    and no: "Call_configure \<notin> set es"
    using ensure_python_trace by blast
  have "Call_configure \<notin> set (during s (snd (plugin_init ev cfg s)))"
    using no by (simp add: init_no_script [OF empty] during_def emits_def es) (simp add: emit_def)
  then show "\<exists>info. fst (plugin_init ev cfg s) = Some (next_handle s)
           \<and> instances (snd (plugin_init ev cfg s)) (next_handle s) = Some info
           \<and> \<not> m_enabled (handle info)
           \<and> Call_configure \<notin> set (during s (snd (plugin_init ev cfg s)))"
    using empty by (simp add: init_result) (simp add: init_no_script [OF empty])
qed

theorem C8_witness:
  "fst (plugin_init env_no_bind cfg_doubler proc0) = None
   \<and> fst (plugin_init env_ok cfg_doubler proc0) = Some 0
   \<and> (\<exists>info. fst (plugin_init env_no_bind cfg_no_script proc0) = Some 0
         \<and> instances (snd (plugin_init env_no_bind cfg_no_script proc0)) 0 = Some info
         \<and> \<not> m_enabled (handle info))"
proof (intro conjI)
  show "fst (plugin_init env_no_bind cfg_doubler proc0) = None"
    using C8_init_null_iff_configure_fails [of env_no_bind cfg_doubler proc0]
    by (simp add: env_no_bind_def env_ok_def cfg_doubler_def)
  show "fst (plugin_init env_ok cfg_doubler proc0) = Some 0"
    using C8_init_null_iff_configure_fails [of env_ok cfg_doubler proc0]
    by (simp add: env_ok_def cfg_doubler_def bind_script_def init_result proc0_def)
  show "\<exists>info. fst (plugin_init env_no_bind cfg_no_script proc0) = Some 0
         \<and> instances (snd (plugin_init env_no_bind cfg_no_script proc0)) 0 = Some info
         \<and> \<not> m_enabled (handle info)"
    using C8_init_null_iff_configure_fails [of env_no_bind cfg_no_script proc0]
    by (auto simp: cfg_no_script_def proc0_def)
qed

text \<open>
  C2, as the code has it. \<open>plugin_shutdown\<close> of an allocated filter returns; it
  finalises the interpreter exactly when the global flag is set at the call, whichever
  filter the handle names, and leaves the flag clear. The interpreter is live
  afterwards exactly when it was live and the flag was clear.
\<close>

theorem C2_shutdown_finalizes_by_flag:
  assumes "instances s h = Some info"
  shows "\<exists>s'. plugin_shutdown h s = Some s'
            \<and> (Py_Finalize \<in> set (during s s')) = pythonInitialised s
            \<and> \<not> pythonInitialised s'
            \<and> py_live s' = (py_live s \<and> \<not> pythonInitialised s)
            \<and> instances s' = (instances s)(h := None)"
  using assms
  by (simp add: plugin_shutdown_def Let_def emit_def emits_def during_def)

theorem C2_witness:
  "\<exists>s'. plugin_shutdown 0 proc_fed = Some s'
       \<and> Py_Finalize \<in> set (during proc_fed s')
       \<and> \<not> pythonInitialised s'
       \<and> \<not> py_live s'"
  using C2_shutdown_finalizes_by_flag [of proc_fed 0 info_doubler]
  by (auto simp: proc_fed_facts)

text \<open>
  C2 as the claim states it fails. From a fresh process, the first filter's
  \<open>plugin_init\<close> initialises the interpreter; the second filter's \<open>plugin_init\<close>
  finds it live and does not initialise it. The shutdown of the second filter
  finalises the interpreter all the same, while the first filter is still allocated.
\<close>

theorem C2_counterexample:
  "Py_Initialize \<in> set (during proc0 proc_A)
   \<and> py_live proc_A
   \<and> fst (plugin_init env_ok cfg_off proc_A) = Some (Suc 0)
   \<and> Py_Initialize \<notin> set (during proc_A proc_AB)
   \<and> plugin_shutdown (Suc 0) proc_AB \<noteq> None
   \<and> Py_Finalize \<in> set (during proc_AB (the (plugin_shutdown (Suc 0) proc_AB)))
   \<and> \<not> py_live (the (plugin_shutdown (Suc 0) proc_AB))
   \<and> instances (the (plugin_shutdown (Suc 0) proc_AB)) 0 = Some info_doubler"
  by (simp add: ex_defs init_defs plugin_shutdown_def during_def)

subsection \<open>The interpreter after a failed configure\<close>

text \<open>
  Once the interpreter is live and the global flag is clear, no entry point of the
  plugin changes either, and none calls \<^verbatim>\<open>Py_Finalize\<close>.
\<close>

lemma init_keeps_live:
  assumes "py_live s" and "\<not> pythonInitialised s"
  shows "py_live (snd (plugin_init ev cfg s)) \<and> \<not> pythonInitialised (snd (plugin_init ev cfg s))
       \<and> (\<exists>es. trace (snd (plugin_init ev cfg s)) = trace s @ es \<and> Py_Finalize \<notin> set es)"
  using assms by (simp add: init_defs split: prod.splits)

lemma ingest_keeps_live:
  assumes "plugin_ingest ev h rs s = Some s'"
  shows "py_live s' = py_live s \<and> pythonInitialised s' = pythonInitialised s
       \<and> (\<exists>es. trace s' = trace s @ es \<and> Py_Finalize \<notin> set es)"
  using assms
  by (auto simp: plugin_ingest_def isEnabled_def emit_def emits_def Let_def track_all_emits
        track_events_def split: option.splits if_splits)

lemma shutdown_keeps_live:
  assumes "plugin_shutdown h s = Some s'" and "\<not> pythonInitialised s"
  shows "py_live s' = py_live s \<and> \<not> pythonInitialised s'
       \<and> (\<exists>es. trace s' = trace s @ es \<and> Py_Finalize \<notin> set es)"
  using assms
  by (auto simp: plugin_shutdown_def emit_def emits_def Let_def split: option.splits)

lemma reconfigure_keeps_live:
  assumes "plugin_reconfigure ev h c s = Some s'"
  shows "py_live s' = py_live s \<and> pythonInitialised s' = pythonInitialised s
       \<and> (\<exists>es. trace s' = trace s @ es \<and> Py_Finalize \<notin> set es)"
  using assms
  by (auto simp: plugin_reconfigure_def emit_def emits_def Let_def split: option.splits)

lemma step_keeps_live:
  assumes "step ev c s = Some s'" and "py_live s" and "\<not> pythonInitialised s"
  shows "py_live s' \<and> \<not> pythonInitialised s'
       \<and> (\<exists>es. trace s' = trace s @ es \<and> Py_Finalize \<notin> set es)"
proof (cases c)
  case (Init cfg)
  then show ?thesis
    using assms init_keeps_live [of s ev cfg] by auto
next
  case (Ingest h r)
  then show ?thesis
    using assms ingest_keeps_live [of ev h r s s'] by auto
next
  case (Shutdown h)
  then show ?thesis
    using assms shutdown_keeps_live [of h s s'] by auto
next
  case (Reconfigure h c)
  then show ?thesis
    using assms reconfigure_keeps_live [of ev h c s s'] by auto
next
  case (New_batch rs)
  then show ?thesis
    using assms by auto
qed

lemma run_keeps_live:
  assumes "run calls s = Some s'" and "py_live s" and "\<not> pythonInitialised s"
  shows "py_live s' \<and> \<not> pythonInitialised s'
       \<and> (\<exists>es. trace s' = trace s @ es \<and> Py_Finalize \<notin> set es)"
  using assms
proof (induction calls arbitrary: s)
  case Nil
  then show ?case by simp
next
  case (Cons call calls)
  obtain ev c where call: "call = (ev, c)" by (cases call)
  from Cons.prems(1) call obtain s1 where
    s1: "step ev c s = Some s1" and rest: "run calls s1 = Some s'"
    by (auto split: option.splits)
  from step_keeps_live [OF s1 Cons.prems(2,3)] obtain es1 where
    live1: "py_live s1" "\<not> pythonInitialised s1"
    and tr1: "trace s1 = trace s @ es1" "Py_Finalize \<notin> set es1"
    by blast
  from Cons.IH [OF rest live1] obtain es2 where
    live2: "py_live s'" "\<not> pythonInitialised s'"
    and tr2: "trace s' = trace s1 @ es2" "Py_Finalize \<notin> set es2"
    by blast
  have "trace s' = trace s @ (es1 @ es2)" "Py_Finalize \<notin> set (es1 @ es2)"
    using tr1 tr2 by simp_all
  with live2 show ?case by blast
qed

lemma init_configure_fails:
  assumes "\<not> py_live s" and "script cfg \<noteq> []"
    and "\<not> fst (configure ev (configure_arg ev cfg))"
  shows "py_live (snd (plugin_init ev cfg s))"
    and "\<not> pythonInitialised (snd (plugin_init ev cfg s))"
    and "\<exists>es. trace (snd (plugin_init ev cfg s)) = trace s @ es
            \<and> Py_Initialize \<in> set es \<and> Py_Finalize \<notin> set es"
  using assms by (simp_all add: init_defs configure_arg_def case_prod_beta)

text \<open>
  C9. When \<open>plugin_init\<close> finds no live interpreter, initialises it, and \<open>configure\<close>
  then fails, the call returns \<^verbatim>\<open>NULL\<close> with the interpreter live, the global flag
  clear and \<^verbatim>\<open>Py_Finalize\<close> not called. From that state on, whatever entry points the
  host calls, in whatever order and with whatever behaviour of the scripts, the
  interpreter stays live and \<^verbatim>\<open>Py_Finalize\<close> is never called.
\<close>

theorem C9_failed_configure_never_finalized:
  assumes "\<not> py_live s" and "script cfg \<noteq> []"
    and "\<not> fst (configure ev (configure_arg ev cfg))"
  shows "fst (plugin_init ev cfg s) = None
       \<and> Py_Initialize \<in> set (during s (snd (plugin_init ev cfg s)))
       \<and> py_live (snd (plugin_init ev cfg s))
       \<and> \<not> pythonInitialised (snd (plugin_init ev cfg s))
       \<and> Py_Finalize \<notin> set (during s (snd (plugin_init ev cfg s)))
       \<and> (\<forall>calls s'. run calls (snd (plugin_init ev cfg s)) = Some s'
             \<longrightarrow> py_live s' \<and> \<not> pythonInitialised s' \<and> Py_Finalize \<notin> set (during s s'))"
proof -
  let ?s1 = "snd (plugin_init ev cfg s)"
  from init_configure_fails [OF assms] obtain es where
    live: "py_live ?s1" "\<not> pythonInitialised ?s1"
    and tr: "trace ?s1 = trace s @ es" "Py_Initialize \<in> set es" "Py_Finalize \<notin> set es"
    by blast
  have null: "fst (plugin_init ev cfg s) = None"
    using assms(2,3) by (simp add: init_result)
  have later: "py_live s' \<and> \<not> pythonInitialised s' \<and> Py_Finalize \<notin> set (during s s')"
    if "run calls ?s1 = Some s'" for calls s'
  proof -
    from run_keeps_live [OF that live] obtain es2 where
      "py_live s'" "\<not> pythonInitialised s'" "trace s' = trace ?s1 @ es2" "Py_Finalize \<notin> set es2"
      by blast
    then show ?thesis
      using tr by (simp add: during_def)
  qed
  from null live tr later show ?thesis
    by (simp add: during_def)
qed

theorem C9_witness:
  "fst (plugin_init env_no_bind cfg_doubler proc0) = None
   \<and> py_live (snd (plugin_init env_no_bind cfg_doubler proc0))
   \<and> \<not> pythonInitialised (snd (plugin_init env_no_bind cfg_doubler proc0))
   \<and> (\<exists>s'. run [(env_ok, Init cfg_off), (env_ok, Shutdown (Suc 0))]
              (snd (plugin_init env_no_bind cfg_doubler proc0)) = Some s'
         \<and> py_live s' \<and> Py_Finalize \<notin> set (during proc0 s'))"
proof -
  have pre: "\<not> py_live proc0" "script cfg_doubler \<noteq> []"
    "\<not> fst (configure env_no_bind (configure_arg env_no_bind cfg_doubler))"
    by (simp_all add: proc0_def cfg_doubler_def env_no_bind_def env_ok_def)
  note failed = C9_failed_configure_never_finalized [OF pre]
  have "run [(env_ok, Init cfg_off), (env_ok, Shutdown (Suc 0))]
          (snd (plugin_init env_no_bind cfg_doubler proc0)) \<noteq> None"
    by (simp add: ex_defs init_defs plugin_shutdown_def)
  then obtain s' where
    ran: "run [(env_ok, Init cfg_off), (env_ok, Shutdown (Suc 0))]
            (snd (plugin_init env_no_bind cfg_doubler proc0)) = Some s'"
    by blast
  with failed have "py_live s' \<and> Py_Finalize \<notin> set (during proc0 s')"
    by blast
  with failed ran show ?thesis
    by blast
qed


end
